theory Spec2Isabelle
  imports Main "HOL-Library.AList"
begin

section \<open>Python strings\<close>

text \<open>
  A Python \<open>str\<close> is modelled as a \<open>string\<close> whose characters are the code points
  U+0000 to U+00FF. The methods below are the ones \<open>app.py\<close> and \<open>start.py\<close> call.
\<close>

definition isspace :: "char \<Rightarrow> bool" where
  \<comment> \<open>the characters \<open>str.strip()\<close> removes, within U+0000..U+00FF\<close>
  "isspace c = (let n = (of_char c :: nat) in
     (9 \<le> n \<and> n \<le> 13) \<or> (28 \<le> n \<and> n \<le> 32) \<or> n = 133 \<or> n = 160)"

definition strip :: "string \<Rightarrow> string" where
  \<comment> \<open>\<open>s.strip()\<close>\<close>
  "strip s = rev (dropWhile isspace (rev (dropWhile isspace s)))"

definition lower_char :: "char \<Rightarrow> char" where
  "lower_char c = (let n = (of_char c :: nat) in
     if (65 \<le> n \<and> n \<le> 90) \<or> (192 \<le> n \<and> n \<le> 222 \<and> n \<noteq> 215)
     then char_of (n + 32) else c)"

definition lower :: "string \<Rightarrow> string" where
  \<comment> \<open>\<open>s.lower()\<close>\<close>
  "lower s = map lower_char s"

definition startswith :: "string \<Rightarrow> string \<Rightarrow> bool" where
  \<comment> \<open>\<open>s.startswith(p)\<close>\<close>
  "startswith s p = (take (length p) s = p)"

definition startswith_any :: "string \<Rightarrow> string list \<Rightarrow> bool" where
  \<comment> \<open>\<open>s.startswith((p1, p2, ...))\<close>\<close>
  "startswith_any s ps = list_ex (startswith s) ps"

definition endswith :: "string \<Rightarrow> string \<Rightarrow> bool" where
  \<comment> \<open>\<open>s.endswith(p)\<close>\<close>
  "endswith s p = (length p \<le> length s \<and> drop (length s - length p) s = p)"

definition remove_char :: "char \<Rightarrow> string \<Rightarrow> string" where
  \<comment> \<open>\<open>s.replace(c, '')\<close> for a one-character \<open>c\<close>\<close>
  "remove_char c s = filter (\<lambda>x. x \<noteq> c) s"

fun split_char :: "char \<Rightarrow> string \<Rightarrow> string list" where
  \<comment> \<open>\<open>s.split(c)\<close> for a one-character separator\<close>
  "split_char c [] = [[]]"
| "split_char c (x # xs) =
     (if x = c then [] # split_char c xs
      else (case split_char c xs of
              [] \<Rightarrow> [[x]]
            | l # ls \<Rightarrow> (x # l) # ls))"

fun join :: "string \<Rightarrow> string list \<Rightarrow> string" where
  \<comment> \<open>\<open>sep.join(xs)\<close>\<close>
  "join sep [] = []"
| "join sep [x] = x"
| "join sep (x # y # ys) = x @ sep @ join sep (y # ys)"

definition contains :: "string \<Rightarrow> string \<Rightarrow> bool" where
  \<comment> \<open>\<open>p in s\<close>\<close>
  "contains s p = list_ex (\<lambda>t. startswith t p) (s # map (\<lambda>i. drop i s) [1..<Suc (length s)])"

section \<open>Python dictionaries with string keys\<close>

text \<open>
  A \<open>dict\<close> is an association list in insertion order with unique keys: assigning to a
  key that is present replaces its value in place, assigning to a new key appends.
\<close>

type_synonym 'v dict = "(string \<times> 'v) list"

definition dict_set :: "string \<Rightarrow> 'v \<Rightarrow> 'v dict \<Rightarrow> 'v dict" where
  \<comment> \<open>\<open>d[k] = v\<close>\<close>
  "dict_set k v d = AList.update k v d"

definition dict_get :: "'v dict \<Rightarrow> string \<Rightarrow> 'v option" where
  \<comment> \<open>\<open>d[k]\<close> where \<open>k in d\<close>; \<open>None\<close> where \<open>k\<close> is not in \<open>d\<close>\<close>
  "dict_get d k = map_of d k"

section \<open>The section parser (\<open>app.py\<close>, \<open>parse_analysis_sections\<close>)\<close>

definition numbered :: "string list" where
  "numbered = [''1.'', ''2.'', ''3.'', ''4.'', ''5.'', ''6.'']"

definition is_header :: "string \<Rightarrow> bool" where
  \<comment> \<open>the test of lines 58-59, on the stripped line\<close>
  "is_header line =
     ((startswith line ''**'' \<and> endswith line '':**'') \<or> startswith_any line numbered)"

definition section_title :: "string \<Rightarrow> string" where
  \<comment> \<open>lines 66-68\<close>
  "section_title line =
     (let t = strip (remove_char (CHR '':'') (remove_char (CHR ''*'') line))
      in if startswith_any t numbered then strip (drop 2 t) else t)"

definition save_section :: "string option \<Rightarrow> string list \<Rightarrow> string dict \<Rightarrow> string dict" where
  \<comment> \<open>lines 62-63 and 74-75; \<open>if current_section:\<close> is false for \<open>None\<close> and for the empty title\<close>
  "save_section current_section current_content sections =
     (case current_section of
        None \<Rightarrow> sections
      | Some t \<Rightarrow> if t \<noteq> [] then dict_set t (join ''\<newline>'' current_content) sections
                  else sections)"

fun sections_loop ::
  "string list \<Rightarrow> string dict \<Rightarrow> string option \<Rightarrow> string list \<Rightarrow> string dict" where
  \<comment> \<open>the \<open>for line in lines\<close> loop and the final save\<close>
  "sections_loop [] sections current_section current_content =
     save_section current_section current_content sections"
| "sections_loop (raw # rest) sections current_section current_content =
     (let line = strip raw in
      if line = [] then sections_loop rest sections current_section current_content
      else if is_header line then
        sections_loop rest (save_section current_section current_content sections)
          (Some (section_title line)) []
      else sections_loop rest sections current_section (current_content @ [line]))"

definition parse_analysis_sections :: "string \<Rightarrow> string dict" where
  "parse_analysis_sections analysis_text =
     sections_loop (split_char (CHR ''\<newline>'') analysis_text) [] None []"

section \<open>Exceptions\<close>

datatype exn =
    TypeError        \<comment> \<open>\<open>'...' in None\<close>\<close>
  | AttributeError   \<comment> \<open>a method called on \<open>None\<close>\<close>
  | ValueError       \<comment> \<open>unpacking an empty list into two names\<close>
  | External string  \<comment> \<open>an exception of Selenium or of the Google client, with its message\<close>

fun str_exn :: "exn \<Rightarrow> string" where
  \<comment> \<open>\<open>str(e)\<close>\<close>
  "str_exn TypeError = ''argument of type 'NoneType' is not iterable''"
| "str_exn AttributeError = CHR 0x27 # ''NoneType' object has no attribute 'find_all'' @ [CHR 0x27]"
| "str_exn ValueError = ''not enough values to unpack (expected 2, got 0)''"
| "str_exn (External m) = m"

section \<open>Parsed HTML (BeautifulSoup)\<close>

text \<open>
  A page is the tree \<open>BeautifulSoup(html, 'html.parser')\<close> builds: a \<open>Text\<close> node is a
  \<open>NavigableString\<close>, a \<open>Tag\<close> has a name, its attribute dictionary and its children.
  The document itself is the list of its top-level nodes; the empty page source is the
  empty list.
\<close>

datatype node = Text string | Tag string "(string \<times> string) list" "node list"

type_synonym html = "node list"

fun walk :: "node list \<Rightarrow> (node \<times> node list) list" where
  \<comment> \<open>every node below, in document order, each with the siblings that follow it\<close>
  "walk [] = []"
| "walk (Text s # rest) = (Text s, rest) # walk rest"
| "walk (Tag n a cs # rest) = (Tag n a cs, rest) # (walk cs @ walk rest)"

fun children :: "node \<Rightarrow> node list" where
  "children (Text s) = []"
| "children (Tag n a cs) = cs"

fun attrs :: "node \<Rightarrow> (string \<times> string) list" where
  "attrs (Text s) = []"
| "attrs (Tag n a cs) = a"

fun is_tag :: "node \<Rightarrow> bool" where
  "is_tag (Text s) = False"
| "is_tag (Tag n a cs) = True"

fun named :: "string list \<Rightarrow> node \<Rightarrow> bool" where
  \<comment> \<open>a tag whose name is one of \<open>names\<close>\<close>
  "named names (Text s) = False"
| "named names (Tag n a cs) = (n \<in> set names)"

definition descendants :: "node list \<Rightarrow> node list" where
  "descendants forest = map fst (walk forest)"

definition find_all :: "string list \<Rightarrow> node \<Rightarrow> node list" where
  \<comment> \<open>\<open>tag.find_all(names)\<close>\<close>
  "find_all names t = filter (named names) (descendants (children t))"

definition find_first :: "string \<Rightarrow> node \<Rightarrow> node option" where
  \<comment> \<open>\<open>tag.find(name)\<close>\<close>
  "find_first n t = (case find_all [n] t of [] \<Rightarrow> None | x # xs \<Rightarrow> Some x)"

fun strings :: "node \<Rightarrow> string list" where
  \<comment> \<open>the strings below a node, in document order\<close>
  "strings (Text s) = [s]"
| "strings (Tag n a cs) = concat (map strings cs)"

definition get_text :: "node \<Rightarrow> string" where
  \<comment> \<open>\<open>tag.text\<close> and \<open>tag.get_text()\<close>\<close>
  "get_text t = concat (strings t)"

definition get_text_strip :: "string \<Rightarrow> node \<Rightarrow> string" where
  \<comment> \<open>\<open>tag.get_text(separator=sep, strip=True)\<close>: every string stripped, the empty ones dropped\<close>
  "get_text_strip sep t = join sep (filter (\<lambda>s. s \<noteq> []) (map strip (strings t)))"

fun dot_string :: "node \<Rightarrow> string option" where
  \<comment> \<open>\<open>tag.string\<close>: the one string of a tag with a single line of single children\<close>
  "dot_string (Text s) = Some s"
| "dot_string (Tag n a [c]) = dot_string c"
| "dot_string (Tag n a cs) = None"

section \<open>The dashboard extractor (\<open>start.py\<close>, \<open>scrape_ipo_dashboard\<close>)\<close>

record listing =
  name :: string
  url :: string

datatype browser_run =
    DriverFails exn   \<comment> \<open>\<open>webdriver.Chrome(...)\<close> raises\<close>
  | LoadRaises exn    \<comment> \<open>\<open>driver.get\<close>, the wait or \<open>page_source\<close> raises something other than a timeout\<close>
  | TimesOut          \<comment> \<open>the wait raises \<open>TimeoutException\<close>\<close>
  | Loaded html       \<comment> \<open>the page source, parsed\<close>

datatype scrape_ret =
    EmptyList                              \<comment> \<open>\<open>return []\<close>\<close>
  | TwoLists "listing list" "listing list" \<comment> \<open>\<open>return current_ipos, upcoming_ipos\<close>\<close>

fun find_mainboard_header :: "node list \<Rightarrow> exn + (node \<times> node list) option" where
  \<comment> \<open>line 70, over the document's nodes in order: the first \<open>h2\<close> whose \<open>.string\<close> contains
      the title, with the nodes after it; the lambda raises on an \<open>h2\<close> whose \<open>.string\<close> is \<open>None\<close>\<close>
  "find_mainboard_header [] = Inr None"
| "find_mainboard_header (e # es) =
     (if named [''h2''] e then
        (case dot_string e of
           None \<Rightarrow> Inl TypeError
         | Some text \<Rightarrow>
             if contains text ''Current IPOs (Mainboard)'' then Inr (Some (e, es))
             else find_mainboard_header es)
      else find_mainboard_header es)"

definition find_next :: "string \<Rightarrow> node list \<Rightarrow> node option" where
  \<comment> \<open>\<open>header.find_next(name)\<close>, given the nodes after the header\<close>
  "find_next n after = (case filter (named [n]) after of [] \<Rightarrow> None | x # xs \<Rightarrow> Some x)"

definition listing_of :: "node \<Rightarrow> listing option" where
  \<comment> \<open>lines 87-96 (and 98-107): the dictionary built from the row's first cell, \<open>None\<close> when
      \<open>link_tag and link_tag.has_attr('href')\<close> is false\<close>
  "listing_of cell =
     (let company_name = strip (get_text cell) in
      case find_first ''a'' cell of
        None \<Rightarrow> None
      | Some link_tag \<Rightarrow>
          (case map_of (attrs link_tag) ''href'' of
             None \<Rightarrow> None
           | Some relative_url \<Rightarrow>
               Some \<lparr>name = company_name, url = ''https://www.chittorgarh.com'' @ relative_url\<rparr>))"

fun rows_loop :: "node list \<Rightarrow> listing list \<Rightarrow> listing list \<Rightarrow> listing list \<times> listing list" where
  \<comment> \<open>the \<open>for row in rows\<close> loop, lines 82-109\<close>
  "rows_loop [] current_ipos upcoming_ipos = (current_ipos, upcoming_ipos)"
| "rows_loop (row # rows) current_ipos upcoming_ipos =
     (let cells = find_all [''td''] row in
      if length cells \<ge> 4 then
        (let status = strip (get_text (cells ! 3)) in
         if lower status = ''current'' then
           (case listing_of (cells ! 0) of
              Some d \<Rightarrow> rows_loop rows (current_ipos @ [d]) upcoming_ipos
            | None \<Rightarrow> rows_loop rows current_ipos upcoming_ipos)
         else if lower status = ''upcoming'' then
           (case listing_of (cells ! 0) of
              Some d \<Rightarrow> rows_loop rows current_ipos (upcoming_ipos @ [d])
            | None \<Rightarrow> rows_loop rows current_ipos upcoming_ipos)
         else rows_loop rows current_ipos upcoming_ipos)
      else rows_loop rows current_ipos upcoming_ipos)"

definition scrape_page :: "html \<Rightarrow> exn + scrape_ret" where
  \<comment> \<open>lines 68-116, the body of the \<open>try\<close> once the page is loaded\<close>
  "scrape_page soup =
     (case find_mainboard_header (descendants soup) of
        Inl e \<Rightarrow> Inl e
      | Inr None \<Rightarrow> Inr EmptyList
      | Inr (Some (mainboard_header, after)) \<Rightarrow>
          (case find_next ''table'' after of
             None \<Rightarrow> Inr EmptyList
           | Some ipo_table \<Rightarrow>
               (case find_first ''tbody'' ipo_table of
                  None \<Rightarrow> Inl AttributeError
                | Some tbody \<Rightarrow>
                    (case rows_loop (find_all [''tr''] tbody) [] [] of
                       (current_ipos, upcoming_ipos) \<Rightarrow>
                         Inr (TwoLists current_ipos upcoming_ipos)))))"

definition scrape_ipo_dashboard :: "browser_run \<Rightarrow> exn + scrape_ret" where
  \<comment> \<open>the driver is created before the \<open>try\<close>; \<open>except Exception\<close> returns \<open>[]\<close>;
      \<open>driver.quit()\<close> in the \<open>finally\<close> is taken to succeed\<close>
  "scrape_ipo_dashboard run =
     (case run of
        DriverFails e \<Rightarrow> Inl e
      | LoadRaises e \<Rightarrow> Inr EmptyList
      | TimesOut \<Rightarrow> Inr EmptyList
      | Loaded soup \<Rightarrow>
          (case scrape_page soup of
             Inl e \<Rightarrow> Inr EmptyList
           | Inr r \<Rightarrow> Inr r))"

section \<open>The detail extractor (\<open>start.py\<close>, \<open>parse_and_aggregate_data\<close>)\<close>

definition get_page_source_with_selenium :: "browser_run \<Rightarrow> exn + html option" where
  \<comment> \<open>only \<open>TimeoutException\<close> is caught (and gives \<open>None\<close>)\<close>
  "get_page_source_with_selenium run =
     (case run of
        DriverFails e \<Rightarrow> Inl e
      | LoadRaises e \<Rightarrow> Inl e
      | TimesOut \<Rightarrow> Inr None
      | Loaded page_source \<Rightarrow> Inr (Some page_source))"

definition find_main :: "html \<Rightarrow> node option" where
  \<comment> \<open>\<open>soup.find('div', id='main')\<close>\<close>
  "find_main soup =
     (case filter (\<lambda>t. named [''div''] t \<and> map_of (attrs t) ''id'' = Some ''main'')
             (descendants soup) of
        [] \<Rightarrow> None
      | x # xs \<Rightarrow> Some x)"

definition headers :: "node \<Rightarrow> (node \<times> node list) list" where
  \<comment> \<open>\<open>main_content.find_all(['h2', 'h3'])\<close>, each heading with the siblings after it\<close>
  "headers main_content =
     filter (\<lambda>p. named [''h2'', ''h3''] (fst p)) (walk (children main_content))"

definition find_next_siblings :: "node list \<Rightarrow> node list" where
  \<comment> \<open>\<open>header.find_next_siblings()\<close>: with no argument, the siblings that are tags\<close>
  "find_next_siblings following = filter is_tag following"

fun siblings_loop :: "node list \<Rightarrow> string \<Rightarrow> string" where
  \<comment> \<open>the inner loop, lines 159-161, with its \<open>break\<close>\<close>
  "siblings_loop [] content = content"
| "siblings_loop (sibling # rest) content =
     (if named [''h2'', ''h3''] sibling then content
      else siblings_loop rest (content @ get_text_strip '' '' sibling @ '' ''))"

fun headers_loop :: "(node \<times> node list) list \<Rightarrow> string \<Rightarrow> string" where
  \<comment> \<open>the outer loop, lines 155-162, with its \<open>continue\<close>\<close>
  "headers_loop [] aggregated_text = aggregated_text"
| "headers_loop ((header, following) # rest) aggregated_text =
     (if contains (get_text header) ''Message Board'' then headers_loop rest aggregated_text
      else headers_loop rest
             (aggregated_text
                @ ''\<newline>\<newline>--- Section: '' @ get_text_strip [] header @ '' ---\<newline>''
                @ siblings_loop (find_next_siblings following) []))"

definition parse_and_aggregate_data :: "html \<Rightarrow> string option" where
  "parse_and_aggregate_data html_content =
     (case find_main html_content of
        None \<Rightarrow> None
      | Some main_content \<Rightarrow> Some (strip (headers_loop (headers main_content) [])))"

section \<open>The summarizer call (\<open>start.py\<close>, \<open>get_ipo_analysis_with_gemini\<close>)\<close>

datatype llm_run =
    ModelRaises exn     \<comment> \<open>\<open>genai.GenerativeModel(...)\<close> raises\<close>
  | GenerateRaises exn  \<comment> \<open>\<open>model.generate_content(prompt)\<close> raises\<close>
  | TextRaises exn      \<comment> \<open>\<open>response.text\<close> raises\<close>
  | Responds string     \<comment> \<open>\<open>response.text\<close>\<close>

definition prompt_of :: "string \<Rightarrow> string" where
  \<comment> \<open>the f-string of lines 168-180\<close>
  \<open>prompt_of ipo_data_text =
     ''\<newline>    You are an expert IPO analyst with immense stock market knowledge, providing a summary for a retail investor. Based ONLY on the text provided below, generate a comprehensive analysis of the IPO. Structure your response as follows:\<newline>''
     @ ''    1.  **IPO Snapshot:** Briefly list the Issue Size, Price Band, and Dates.\<newline>''
     @ ''    2.  **Business Overview:** A one or two-sentence summary of what the company does.\<newline>''
     @ ''    3.  **Financial Health:** Briefly comment on the company's financial performance (revenue/profit trends) based on the data.\<newline>''
     @ ''    4.  **Positive Indicators (Reasons to consider applying):** Create a bulleted list of positive points.\<newline>''
     @ ''    5.  **Negative Indicators (Reasons for caution):** Create a bulleted list of negative points.\<newline>''
     @ ''    6.  **Final Verdict:** Conclude with a balanced, one-paragraph verdict based *strictly* on the provided information. Start with "Based on the available data...".\<newline>''
     @ ''\<newline>    --- IPO DATA START ---\<newline>    '' @ ipo_data_text
     @ ''\<newline>    --- IPO DATA END ---\<newline>    ''\<close>

definition generate_content :: "llm_run \<Rightarrow> exn + string" where
  \<comment> \<open>lines 182-184, the body of the \<open>try\<close>\<close>
  "generate_content run =
     (case run of
        ModelRaises e \<Rightarrow> Inl e
      | GenerateRaises e \<Rightarrow> Inl e
      | TextRaises e \<Rightarrow> Inl e
      | Responds text \<Rightarrow> Inr (strip text))"

definition get_ipo_analysis_with_gemini :: "(string \<Rightarrow> llm_run) \<Rightarrow> string \<Rightarrow> exn + string" where
  \<comment> \<open>\<open>llm\<close> is what the Google client does with a prompt\<close>
  "get_ipo_analysis_with_gemini llm ipo_data_text =
     (case generate_content (llm (prompt_of ipo_data_text)) of
        Inl e \<Rightarrow>
          Inr (''An error occurred while communicating with the Google AI API: '' @ str_exn e)
      | Inr text \<Rightarrow> Inr text)"

section \<open>Time\<close>

text \<open>
  A \<open>datetime\<close> is a number of microseconds on the local time line. The difference of two
  is a \<open>timedelta\<close>, which Python keeps normalised: \<open>0 \<le> seconds < 86400\<close> and
  \<open>0 \<le> microseconds < 1000000\<close>, the rest in \<open>days\<close>.
\<close>

type_synonym datetime = int

record timedelta =
  days :: int
  seconds :: int
  microseconds :: int

definition datetime_sub :: "datetime \<Rightarrow> datetime \<Rightarrow> timedelta" where
  \<comment> \<open>\<open>a - b\<close>\<close>
  "datetime_sub a b =
     (let us = a - b in
      \<lparr>days = us div 86400000000,
       seconds = (us div 1000000) mod 86400,
       microseconds = us mod 1000000\<rparr>)"

section \<open>The cache and the request handlers (\<open>app.py\<close>)\<close>

record analysis_data =
  ipo :: listing
  ipo_type :: string
  type_label :: string
  raw_analysis :: string
  sections :: "string dict"
  analyzed_at :: datetime  \<comment> \<open>the datetime whose \<open>isoformat()\<close> is stored\<close>

record ipo_cache =
  current_ipos :: "listing list"
  upcoming_ipos :: "listing list"
  last_updated :: "datetime option"
  analyses :: "analysis_data dict"

text \<open>
  The state of the process: the cache, and how often the dashboard was scraped, a detail
  page rendered and the summarizer called so far.
\<close>

record world =
  cache :: ipo_cache
  scrape_calls :: nat
  render_calls :: nat
  summarizer_calls :: nat

text \<open>What one request meets outside the process.\<close>

record env =
  now :: datetime                          \<comment> \<open>\<open>datetime.now()\<close> in \<open>get_cached_ipos\<close>\<close>
  dashboard :: browser_run                 \<comment> \<open>the browser on the dashboard\<close>
  detail :: "string \<Rightarrow> browser_run"     \<comment> \<open>the browser on a detail page, by its URL\<close>
  llm :: "string \<Rightarrow> llm_run"            \<comment> \<open>the Google client, by the prompt\<close>
  analyzed_now :: datetime                 \<comment> \<open>\<open>datetime.now()\<close> of line 166\<close>

datatype json =
    Failure string  \<comment> \<open>\<open>{'success': False, 'error': ...}\<close>\<close>
  | IpoLists "listing list" "listing list" nat nat nat "datetime option"
      \<comment> \<open>the lists, the three counts and \<open>last_updated\<close> (\<open>None\<close> is JSON null)\<close>
  | AnalysisOk analysis_data  \<comment> \<open>\<open>{'success': True, 'data': ...}\<close>\<close>
  | RefreshOk string nat nat nat

fun success :: "json \<Rightarrow> bool" where
  "success (Failure m) = False"
| "success (IpoLists c u cc uc tc lu) = True"
| "success (AnalysisOk d) = True"
| "success (RefreshOk m cc uc tc) = True"

record response =
  body :: json
  status :: nat

definition is_stale :: "datetime \<Rightarrow> ipo_cache \<Rightarrow> bool" where
  \<comment> \<open>the test of lines 32-33\<close>
  "is_stale current_time c =
     (case last_updated c of
        None \<Rightarrow> True
      | Some t \<Rightarrow> seconds (datetime_sub current_time t) > 3600)"

definition get_cached_ipos :: "env \<Rightarrow> world \<Rightarrow> (exn + listing list \<times> listing list) \<times> world" where
  "get_cached_ipos e w =
     (let current_time = now e in
      if is_stale current_time (cache w) then
        (let w1 = w\<lparr>scrape_calls := scrape_calls w + 1\<rparr> in
         case scrape_ipo_dashboard (dashboard e) of
           Inl ex \<Rightarrow> (Inl ex, w1)
         | Inr EmptyList \<Rightarrow> (Inl ValueError, w1)
         | Inr (TwoLists cur up) \<Rightarrow>
             (let c = (cache w1)\<lparr>current_ipos := cur, upcoming_ipos := up,
                                  last_updated := Some current_time\<rparr>
              in (Inr (current_ipos c, upcoming_ipos c), w1\<lparr>cache := c\<rparr>)))
      else (Inr (current_ipos (cache w), upcoming_ipos (cache w)), w))"

definition get_ipos :: "env \<Rightarrow> world \<Rightarrow> response \<times> world" where
  "get_ipos e w =
     (case get_cached_ipos e w of
        (Inl ex, w1) \<Rightarrow> (\<lparr>body = Failure (str_exn ex), status = 500\<rparr>, w1)
      | (Inr (cur, up), w1) \<Rightarrow>
          (\<lparr>body = IpoLists cur up (length cur) (length up) (length cur + length up)
                     (last_updated (cache w1)),
            status = 200\<rparr>, w1))"

function str_nat :: "nat \<Rightarrow> string" where
  \<comment> \<open>\<open>str(n)\<close> for the non-negative index Flask's \<open>int\<close> converter accepts\<close>
  "str_nat n = (if n < 10 then [char_of (48 + n)]
                else str_nat (n div 10) @ [char_of (48 + n mod 10)])"
  by pat_completeness auto
termination
  by (relation "measure id") auto

definition ipo_key :: "string \<Rightarrow> nat \<Rightarrow> string \<Rightarrow> string" where
  \<comment> \<open>line 130\<close>
  "ipo_key ty i nm = ty @ ''_'' @ str_nat i @ ''_'' @ nm"

definition analyze_listing ::
  "env \<Rightarrow> string \<Rightarrow> string \<Rightarrow> listing list \<Rightarrow> nat \<Rightarrow> world \<Rightarrow> (exn + response) \<times> world" where
  \<comment> \<open>lines 123-174, once the list and its label are chosen\<close>
  "analyze_listing e ty label ipos i w =
     (if i \<ge> length ipos then
        (Inr \<lparr>body = Failure (''IPO index out of range for '' @ ty @ '' IPOs''),
              status = 400\<rparr>, w)
      else
        (let entry = ipos ! i; k = ipo_key ty i (name entry) in
         case dict_get (analyses (cache w)) k of
           Some stored \<Rightarrow> (Inr \<lparr>body = AnalysisOk stored, status = 200\<rparr>, w)
         | None \<Rightarrow>
             (let w1 = w\<lparr>render_calls := render_calls w + 1\<rparr> in
              case get_page_source_with_selenium (detail e (url entry)) of
                Inl ex \<Rightarrow> (Inl ex, w1)
              | Inr None \<Rightarrow>
                  (Inr \<lparr>body = Failure ''Could not retrieve IPO details page'',
                        status = 500\<rparr>, w1)
              | Inr (Some html_content) \<Rightarrow>
                  if html_content = [] then
                    (Inr \<lparr>body = Failure ''Could not retrieve IPO details page'',
                          status = 500\<rparr>, w1)
                  else
                    (case parse_and_aggregate_data html_content of
                       None \<Rightarrow>
                         (Inr \<lparr>body = Failure ''Could not parse IPO data from the page'',
                               status = 500\<rparr>, w1)
                     | Some aggregated_data \<Rightarrow>
                         if aggregated_data = [] then
                           (Inr \<lparr>body = Failure ''Could not parse IPO data from the page'',
                                 status = 500\<rparr>, w1)
                         else
                           (let w2 = w1\<lparr>summarizer_calls := summarizer_calls w1 + 1\<rparr> in
                            case get_ipo_analysis_with_gemini (llm e) aggregated_data of
                              Inl ex \<Rightarrow> (Inl ex, w2)
                            | Inr analysis_text \<Rightarrow>
                                (let d = \<lparr>ipo = entry, ipo_type = ty, type_label = label,
                                          raw_analysis = analysis_text,
                                          sections = parse_analysis_sections analysis_text,
                                          analyzed_at = analyzed_now e\<rparr>;
                                     c = (cache w2)\<lparr>analyses :=
                                            dict_set k d (analyses (cache w2))\<rparr>
                                 in (Inr \<lparr>body = AnalysisOk d, status = 200\<rparr>,
                                     w2\<lparr>cache := c\<rparr>)))))))"

definition analyze_try :: "env \<Rightarrow> string \<Rightarrow> nat \<Rightarrow> world \<Rightarrow> (exn + response) \<times> world" where
  \<comment> \<open>lines 108-174, the body of the \<open>try\<close>\<close>
  \<open>analyze_try e ty i w =
     (case get_cached_ipos e w of
        (Inl ex, w1) \<Rightarrow> (Inl ex, w1)
      | (Inr (cur, up), w1) \<Rightarrow>
          if ty = ''current'' then analyze_listing e ty ''CURRENT'' cur i w1
          else if ty = ''upcoming'' then analyze_listing e ty ''UPCOMING'' up i w1
          else (Inr \<lparr>body = Failure ''Invalid IPO type. Must be "current" or "upcoming"'',
                     status = 400\<rparr>, w1))\<close>

definition analyze_ipo :: "env \<Rightarrow> string \<Rightarrow> nat \<Rightarrow> world \<Rightarrow> response \<times> world" where
  \<comment> \<open>\<open>except Exception\<close> answers HTTP 500 with \<open>str(e)\<close>\<close>
  "analyze_ipo e ty i w =
     (case analyze_try e ty i w of
        (Inl ex, w1) \<Rightarrow> (\<lparr>body = Failure (str_exn ex), status = 500\<rparr>, w1)
      | (Inr r, w1) \<Rightarrow> (r, w1))"

definition refresh_ipos :: "env \<Rightarrow> world \<Rightarrow> response \<times> world" where
  "refresh_ipos e w =
     (let w0 = w\<lparr>cache := \<lparr>current_ipos = [], upcoming_ipos = [],
                            last_updated = None, analyses = []\<rparr>\<rparr> in
      case get_cached_ipos e w0 of
        (Inl ex, w1) \<Rightarrow> (\<lparr>body = Failure (str_exn ex), status = 500\<rparr>, w1)
      | (Inr (cur, up), w1) \<Rightarrow>
          (\<lparr>body = RefreshOk ''IPO data refreshed successfully''
                     (length cur) (length up) (length cur + length up),
            status = 200\<rparr>, w1))"

section \<open>The claims' vocabulary\<close>











section \<open>Example pages and states\<close>

definition example_row :: "string \<Rightarrow> node list \<Rightarrow> string \<Rightarrow> node" where
  "example_row nm links st =
     Tag ''tr'' [] [Tag ''td'' [] (links @ [Text nm]), Tag ''td'' [] [Text ''Jan 02''],
                    Tag ''td'' [] [Text ''Jan 06''], Tag ''td'' [] [Text st]]"

definition example_rows :: "node list" where
  "example_rows =
     [example_row '' Alpha Ltd '' [Tag ''a'' [(''href'', ''/ipo/alpha/1/'')] []] ''Current'',
      example_row ''Beta Ltd'' [Tag ''a'' [(''href'', ''/ipo/beta/2/'')] []] '' UPCOMING '',
      example_row ''Gamma Ltd'' [Tag ''a'' [(''href'', ''/ipo/gamma/3/'')] []] ''Closed'',
      example_row ''Delta Ltd'' [] ''Current'',
      Tag ''tr'' [] [Tag ''td'' [] [Text ''Current'']],
      example_row ''Eps Ltd'' [Tag ''a'' [(''href'', ''/ipo/eps/5/'')] []] ''current'']"


definition example_table :: "node list \<Rightarrow> node" where
  "example_table rows = Tag ''table'' [] [Tag ''tbody'' [] rows]"

definition dashboard_of :: "node list \<Rightarrow> html" where
  "dashboard_of rows =
     [Tag ''html'' [] [Tag ''body'' []
        [Tag ''h2'' [] [Text ''Current IPOs (Mainboard)''], example_table rows]]]"

definition page_without_heading :: html where
  "page_without_heading =
     [Tag ''html'' [] [Tag ''body'' [] [Tag ''h2'' [] [Text ''SME IPOs''], example_table []]]]"

definition example_main :: node where
  "example_main =
     Tag ''div'' [(''id'', ''main'')]
       [Tag ''h2'' [] [Text '' Alpha Ltd IPO Details ''],
        Text ''loose text'',
        Tag ''p'' [] [Text ''Issue size '', Tag ''b'' [] [Text '' 100 Cr '']],
        Tag ''h3'' [] [Text ''Message Board''],
        Tag ''p'' [] [Text ''a post''],
        Tag ''h3'' [] [Text ''Financials''],
        Tag ''table'' [] [Tag ''tr'' [] [Tag ''td'' [] [Text ''Revenue''],
                                         Tag ''td'' [] [Text ''10'']]]]"

definition detail_page :: html where
  "detail_page = [Tag ''html'' [] [Tag ''body'' [] [example_main]]]"

definition example_env :: "datetime \<Rightarrow> browser_run \<Rightarrow> env" where
  "example_env t run =
     \<lparr>now = t, dashboard = run, detail = (\<lambda>u. Loaded detail_page),
      llm = (\<lambda>p. Responds ''**Snapshot:**\<newline>Line A\<newline>**Verdict:**\<newline>Line B''),
      analyzed_now = t\<rparr>"

definition alpha :: listing where
  "alpha = \<lparr>name = ''Alpha Ltd'', url = ''https://www.chittorgarh.com/ipo/alpha/1/''\<rparr>"

definition example_cache :: "datetime option \<Rightarrow> ipo_cache" where
  "example_cache t =
     \<lparr>current_ipos = [alpha], upcoming_ipos = [], last_updated = t, analyses = []\<rparr>"

definition start_world :: "ipo_cache \<Rightarrow> world" where
  "start_world c = \<lparr>cache = c, scrape_calls = 0, render_calls = 0, summarizer_calls = 0\<rparr>"

definition broken_driver :: browser_run where
  "broken_driver = DriverFails (External ''chromedriver not found'')"

definition first_call :: "response \<times> world" where
  \<comment> \<open>the first analysis of the current listing 0, on a fresh cache\<close>
  "first_call =
     analyze_ipo (example_env 10000000 TimesOut) ''current'' 0
       (start_world (example_cache (Some 0)))"

definition refreshed :: "response \<times> world" where
  \<comment> \<open>a forced refresh after that analysis\<close>
  "refreshed =
     refresh_ipos (example_env 30000000 (Loaded (dashboard_of example_rows))) (snd first_call)"

section \<open>Theorems\<close>

subsection \<open>The section parser\<close>

text \<open>
  C4. \<open>parse_analysis_sections\<close> maps the text
  \<open>**Snapshot:**\nLine A\n**Verdict:**\nLine B\<close> to the dictionary
  \<open>{"Snapshot": "Line A", "Verdict": "Line B"}\<close>, and the text
  \<open>1. Snapshot\nLine A\n2. Verdict\nLine B\<close> to the same dictionary: the leading
  digit and period are stripped from each title.
\<close>

theorem parse_analysis_sections_examples:
  "parse_analysis_sections ''**Snapshot:**\<newline>Line A\<newline>**Verdict:**\<newline>Line B''
     = [(''Snapshot'', ''Line A''), (''Verdict'', ''Line B'')]
   \<and> parse_analysis_sections ''1. Snapshot\<newline>Line A\<newline>2. Verdict\<newline>Line B''
     = [(''Snapshot'', ''Line A''), (''Verdict'', ''Line B'')]"
  by code_simp


subsection \<open>The dashboard extractor\<close>

lemma scrape_missing_heading:
  "find_mainboard_header (descendants soup) = Inr None \<Longrightarrow>
     scrape_ipo_dashboard (Loaded soup) = Inr EmptyList"
  by (simp add: scrape_ipo_dashboard_def scrape_page_def)

lemma scrape_missing_table:
  "find_mainboard_header (descendants soup) = Inr (Some (hdr, after)) \<Longrightarrow>
   find_next ''table'' after = None \<Longrightarrow>
     scrape_ipo_dashboard (Loaded soup) = Inr EmptyList"
  by (simp add: scrape_ipo_dashboard_def scrape_page_def)

lemma scrape_page_never_raises: "\<exists>r. scrape_ipo_dashboard (Loaded soup) = Inr r"
  by (simp add: scrape_ipo_dashboard_def split: sum.splits)

text \<open>
  C1, as the code behaves. On a dashboard page without the heading
  "Current IPOs (Mainboard)", \<open>scrape_ipo_dashboard\<close> does not raise, but what it returns
  is the single empty list of \<open>return []\<close>, not two empty lists: the caller
  \<open>get_cached_ipos\<close>, which unpacks two values, then raises \<open>ValueError\<close>.
\<close>

theorem scrape_without_heading_returns_one_list:
  "scrape_ipo_dashboard (Loaded page_without_heading) = Inr EmptyList
   \<and> get_cached_ipos (example_env 0 (Loaded page_without_heading))
         (start_world (example_cache None))
       = (Inl ValueError, (start_world (example_cache None))\<lparr>scrape_calls := 1\<rparr>)"
proof -
  have a: "scrape_ipo_dashboard (Loaded page_without_heading) = Inr EmptyList"
    by code_simp
  then show ?thesis
    by (simp add: get_cached_ipos_def example_env_def start_world_def example_cache_def
          is_stale_def)
qed











subsection \<open>The detail extractor\<close>







subsection \<open>The summarizer call\<close>

text \<open>
  C9. For every input text and whatever the Google client does,
  \<open>get_ipo_analysis_with_gemini\<close> returns a string and raises nothing: the stripped
  response text, or, when creating the model, generating or reading the response raises,
  the fixed error sentence followed by the exception's message.
\<close>

theorem gemini_never_raises:
  "get_ipo_analysis_with_gemini f t =
     Inr (case f (prompt_of t) of
            ModelRaises e \<Rightarrow>
              ''An error occurred while communicating with the Google AI API: '' @ str_exn e
          | GenerateRaises e \<Rightarrow>
              ''An error occurred while communicating with the Google AI API: '' @ str_exn e
          | TextRaises e \<Rightarrow>
              ''An error occurred while communicating with the Google AI API: '' @ str_exn e
          | Responds r \<Rightarrow> strip r)"
  by (simp add: get_ipo_analysis_with_gemini_def generate_content_def split: llm_run.splits)

subsection \<open>The cache\<close>

lemma dict_get_set: "dict_get (dict_set k v d) k = Some v"
  by (simp add: dict_get_def dict_set_def update_conv')

lemma dict_get_empty: "dict_get [] k = None"
  by (simp add: dict_get_def)

lemma fresh_read:
  "\<not> is_stale (now e) (cache w) \<Longrightarrow>
     get_cached_ipos e w = (Inr (current_ipos (cache w), upcoming_ipos (cache w)), w)"
  by (simp add: get_cached_ipos_def)

lemma scraped_read:
  "is_stale (now e) (cache w) \<Longrightarrow>
   scrape_ipo_dashboard (dashboard e) = Inr (TwoLists cur up) \<Longrightarrow>
     get_cached_ipos e w =
       (Inr (cur, up),
        w\<lparr>scrape_calls := scrape_calls w + 1,
           cache := (cache w)\<lparr>current_ipos := cur, upcoming_ipos := up,
                               last_updated := Some (now e)\<rparr>\<rparr>)"
  by (simp add: get_cached_ipos_def)

lemma stale_read_scrapes_once:
  "is_stale (now e) (cache w) \<Longrightarrow> scrape_calls (snd (get_cached_ipos e w)) = scrape_calls w + 1"
  by (simp add: get_cached_ipos_def Let_def split: sum.splits scrape_ret.splits)

lemma stale_iff:
  "is_stale t c =
     (case last_updated c of
        None \<Rightarrow> True
      | Some u \<Rightarrow> 3600 < ((t - u) div 1000000) mod 86400)"
  by (simp add: is_stale_def datetime_sub_def Let_def split: option.splits)

lemma read_keeps_analyses:
  "get_cached_ipos e w = (res, w') \<Longrightarrow>
     analyses (cache w') = analyses (cache w) \<and> summarizer_calls w' = summarizer_calls w
     \<and> render_calls w' = render_calls w"
  by (auto simp: get_cached_ipos_def Let_def split: if_splits sum.splits scrape_ret.splits)

lemma read_sets_timestamp:
  "get_cached_ipos e w = (Inr res, w') \<Longrightarrow> last_updated (cache w') \<noteq> None"
  by (auto simp: get_cached_ipos_def is_stale_def Let_def
           split: if_splits option.splits sum.splits scrape_ret.splits)

lemma example_scrape:
  "scrape_ipo_dashboard (Loaded (dashboard_of example_rows)) =
     Inr (TwoLists
            [alpha, \<lparr>name = ''Eps Ltd'', url = ''https://www.chittorgarh.com/ipo/eps/5/''\<rparr>]
            [\<lparr>name = ''Beta Ltd'', url = ''https://www.chittorgarh.com/ipo/beta/2/''\<rparr>])"
  by code_simp

text \<open>
  C2, as the code behaves. A cache whose \<open>last_updated\<close> is 25 hours old is not
  re-scraped: the test of \<open>get_cached_ipos\<close> reads \<open>timedelta.seconds\<close>, the seconds left
  over after whole days (here 3600, which is not greater than 3600), not the age in
  seconds. The lists and the timestamp stay as they were and the browser is never started.
\<close>

theorem cache_25_hours_old_not_rescraped:
  "seconds (datetime_sub 90000000000 0) = 3600
   \<and> get_cached_ipos (example_env 90000000000 broken_driver)
         (start_world (example_cache (Some 0)))
       = (Inr ([alpha], []), start_world (example_cache (Some 0)))"
  by (simp add: get_cached_ipos_def example_env_def start_world_def example_cache_def
        is_stale_def datetime_sub_def)

text \<open>
  C10. Whenever \<open>get_cached_ipos\<close> returns normally, \<open>last_updated\<close> of the cache is set;
  hence every successful answer of \<open>get_ipos\<close> (HTTP 200, \<open>success\<close> true) carries a
  \<open>last_updated\<close> that is not null.
\<close>

theorem last_updated_set_on_success:
  "(get_cached_ipos e w = (Inr res, w') \<longrightarrow> last_updated (cache w') \<noteq> None)
   \<and> (get_ipos e w = (r, w'') \<and> success (body r) \<longrightarrow>
        (\<exists>cur up t. body r = IpoLists cur up (length cur) (length up)
                                (length cur + length up) (Some t)
                    \<and> status r = 200))"
  by (auto simp: get_ipos_def split: prod.splits sum.splits dest: read_sets_timestamp)

theorem last_updated_set_on_success_witness:
  "last_updated (cache (snd (get_cached_ipos
       (example_env 10000000 (Loaded (dashboard_of example_rows)))
       (start_world (example_cache None))))) \<noteq> None
   \<and> body (fst (get_ipos (example_env 10000000 (Loaded (dashboard_of example_rows)))
                   (start_world (example_cache None))))
     = IpoLists
         [alpha, \<lparr>name = ''Eps Ltd'', url = ''https://www.chittorgarh.com/ipo/eps/5/''\<rparr>]
         [\<lparr>name = ''Beta Ltd'', url = ''https://www.chittorgarh.com/ipo/beta/2/''\<rparr>]
         2 1 3 (Some 10000000)"
proof -
  let ?e = "example_env 10000000 (Loaded (dashboard_of example_rows))"
  let ?w = "start_world (example_cache None)"
  have stale: "is_stale (now ?e) (cache ?w)"
    by (simp add: is_stale_def example_env_def start_world_def example_cache_def)
  have scr: "scrape_ipo_dashboard (dashboard ?e) =
     Inr (TwoLists
            [alpha, \<lparr>name = ''Eps Ltd'', url = ''https://www.chittorgarh.com/ipo/eps/5/''\<rparr>]
            [\<lparr>name = ''Beta Ltd'', url = ''https://www.chittorgarh.com/ipo/beta/2/''\<rparr>])"
    using example_scrape by (simp add: example_env_def)
  note rd = scraped_read [OF stale scr]
  have g: "get_ipos ?e ?w = (fst (get_ipos ?e ?w), snd (get_ipos ?e ?w))" by simp
  have b: "body (fst (get_ipos ?e ?w)) = IpoLists
         [alpha, \<lparr>name = ''Eps Ltd'', url = ''https://www.chittorgarh.com/ipo/eps/5/''\<rparr>]
         [\<lparr>name = ''Beta Ltd'', url = ''https://www.chittorgarh.com/ipo/beta/2/''\<rparr>]
         2 1 3 (Some 10000000)"
    by (simp add: get_ipos_def rd) (simp add: example_env_def)
  from last_updated_set_on_success [of ?e ?w _ "snd (get_cached_ipos ?e ?w)"
         "fst (get_ipos ?e ?w)" "snd (get_ipos ?e ?w)"] rd
  have "last_updated (cache (snd (get_cached_ipos ?e ?w))) \<noteq> None" by simp
  then show ?thesis using b by simp
qed

subsection \<open>The analyze handler\<close>

lemma analyze_listing_hit:
  "i < length ipos \<Longrightarrow>
   dict_get (analyses (cache w)) (ipo_key ty i (name (ipos ! i))) = Some d \<Longrightarrow>
     analyze_listing e ty label ipos i w = (Inr \<lparr>body = AnalysisOk d, status = 200\<rparr>, w)"
  by (simp add: analyze_listing_def)

lemma analyze_listing_effect:
  assumes "analyze_listing e ty label ipos i w = (res, w')" and "i < length ipos"
  shows "current_ipos (cache w') = current_ipos (cache w)
       \<and> upcoming_ipos (cache w') = upcoming_ipos (cache w)
       \<and> last_updated (cache w') = last_updated (cache w)
       \<and> scrape_calls w' = scrape_calls w
       \<and> summarizer_calls w' \<le> summarizer_calls w + 1
       \<and> (summarizer_calls w' \<noteq> summarizer_calls w \<longrightarrow>
            dict_get (analyses (cache w')) (ipo_key ty i (name (ipos ! i))) \<noteq> None)
       \<and> (\<forall>r. res = Inr r \<longrightarrow> status r = 200 \<longrightarrow>
            (\<exists>d. r = \<lparr>body = AnalysisOk d, status = 200\<rparr>
               \<and> dict_get (analyses (cache w')) (ipo_key ty i (name (ipos ! i))) = Some d))"
  using assms
  by (auto simp: analyze_listing_def Let_def dict_get_set get_ipo_analysis_with_gemini_def
           split: option.splits sum.splits if_splits)

lemma analyze_listing_miss:
  assumes "analyze_listing e ty label ipos i w = (Inr r, w')" and "status r = 200"
      and "analyses (cache w) = []"
  shows "summarizer_calls w' = summarizer_calls w + 1 \<and> render_calls w' = render_calls w + 1
       \<and> (\<exists>d. body r = AnalysisOk d \<and> analyzed_at d = analyzed_now e
              \<and> dict_get (analyses (cache w')) (ipo_key ty i (name (ipo d))) = Some d)"
  using assms
  by (auto simp: analyze_listing_def Let_def dict_get_set dict_get_empty
           split: option.splits sum.splits if_splits)

lemma analyze_after_clear:
  assumes "analyze_ipo e ty i w = (r, w')" and "status r = 200" and "analyses (cache w) = []"
  shows "summarizer_calls w' = summarizer_calls w + 1 \<and> render_calls w' = render_calls w + 1
       \<and> (\<exists>d. body r = AnalysisOk d \<and> analyzed_at d = analyzed_now e
              \<and> dict_get (analyses (cache w')) (ipo_key ty i (name (ipo d))) = Some d)"
proof -
  obtain res0 w0 where g: "get_cached_ipos e w = (res0, w0)" by (cases "get_cached_ipos e w")
  note k = read_keeps_analyses [OF g]
  from assms(1,2) g obtain cur up label ipos where
    l: "analyze_listing e ty label ipos i w0 = (Inr r, w')"
    by (auto simp: analyze_ipo_def analyze_try_def split: sum.splits prod.splits if_splits)
  from analyze_listing_miss [OF l assms(2)] k assms(3) show ?thesis by simp
qed

lemma analyze_fresh:
  assumes "\<not> is_stale (now e) (cache w)" and "ty = ''current'' \<or> ty = ''upcoming''"
  shows "analyze_try e ty i w =
           analyze_listing e ty (if ty = ''current'' then ''CURRENT'' else ''UPCOMING'')
             (if ty = ''current'' then current_ipos (cache w) else upcoming_ipos (cache w)) i w"
  using assms by (auto simp: analyze_try_def fresh_read)

text \<open>
  C5. For every cache that is fresh at both calls and every valid type and index, two
  consecutive \<open>analyze_ipo\<close> calls for the same type and index call the summarizer at
  most once between them; when the first call answers HTTP 200, its record is stored
  under the key of type, index and name, and the second call returns the same response
  and leaves the state as it was: nothing is rendered, parsed or summarized again.
\<close>

theorem analyze_memoized:
  assumes fresh1: "\<not> is_stale (now e1) (cache w0)"
      and fresh2: "\<not> is_stale (now e2) (cache w0)"
      and ty: "ty = ''current'' \<or> ty = ''upcoming''"
      and idx: "i < length (if ty = ''current'' then current_ipos (cache w0)
                            else upcoming_ipos (cache w0))"
      and call1: "analyze_ipo e1 ty i w0 = (r1, w1)"
      and call2: "analyze_ipo e2 ty i w1 = (r2, w2)"
  shows "summarizer_calls w2 \<le> summarizer_calls w0 + 1
       \<and> (status r1 = 200 \<longrightarrow>
            (\<exists>d. body r1 = AnalysisOk d
               \<and> dict_get (analyses (cache w1))
                    (ipo_key ty i (name ((if ty = ''current'' then current_ipos (cache w0)
                                          else upcoming_ipos (cache w0)) ! i))) = Some d)
            \<and> r2 = r1 \<and> w2 = w1)"
proof -
  define ipos where "ipos = (if ty = ''current'' then current_ipos (cache w0)
                             else upcoming_ipos (cache w0))"
  define label where "label = (if ty = ''current'' then ''CURRENT'' else ''UPCOMING'')"
  define k where "k = ipo_key ty i (name (ipos ! i))"
  have i: "i < length ipos" using idx by (simp add: ipos_def)
  have t1: "analyze_try e1 ty i w0 = analyze_listing e1 ty label ipos i w0"
    using analyze_fresh [OF fresh1 ty, of i] by (simp add: ipos_def label_def)
  obtain res1 where l1: "analyze_listing e1 ty label ipos i w0 = (res1, w1)"
    and r1: "r1 = (case res1 of
                     Inl ex \<Rightarrow> \<lparr>body = Failure (str_exn ex), status = 500\<rparr>
                   | Inr r \<Rightarrow> r)"
    using call1 unfolding analyze_ipo_def t1
    by (cases "analyze_listing e1 ty label ipos i w0") (auto split: sum.splits)
  note eff1 = analyze_listing_effect [OF l1 i, folded k_def]
  have same: "current_ipos (cache w1) = current_ipos (cache w0)"
             "upcoming_ipos (cache w1) = upcoming_ipos (cache w0)"
             "last_updated (cache w1) = last_updated (cache w0)"
    using eff1 by simp_all
  have fresh2': "\<not> is_stale (now e2) (cache w1)"
    using fresh2 same by (simp add: is_stale_def)
  have t2: "analyze_try e2 ty i w1 = analyze_listing e2 ty label ipos i w1"
    using analyze_fresh [OF fresh2' ty, of i] by (simp add: same ipos_def label_def)
  obtain res2 where l2: "analyze_listing e2 ty label ipos i w1 = (res2, w2)"
    and r2: "r2 = (case res2 of
                     Inl ex \<Rightarrow> \<lparr>body = Failure (str_exn ex), status = 500\<rparr>
                   | Inr r \<Rightarrow> r)"
    using call2 unfolding analyze_ipo_def t2
    by (cases "analyze_listing e2 ty label ipos i w1") (auto split: sum.splits)
  note eff2 = analyze_listing_effect [OF l2 i, folded k_def]
  have hit: "res2 = Inr \<lparr>body = AnalysisOk d, status = 200\<rparr> \<and> w2 = w1"
    if "dict_get (analyses (cache w1)) k = Some d" for d
    using analyze_listing_hit [OF i, of w1 ty d e2 label] that l2 by (simp add: k_def)
  have count: "summarizer_calls w2 \<le> summarizer_calls w0 + 1"
  proof (cases "summarizer_calls w1 = summarizer_calls w0")
    case True
    then show ?thesis using eff2 by simp
  next
    case False
    then obtain d where "dict_get (analyses (cache w1)) k = Some d" using eff1 by auto
    then have "w2 = w1" using hit by simp
    then show ?thesis using eff1 by simp
  qed
  have memo: "(\<exists>d. body r1 = AnalysisOk d \<and> dict_get (analyses (cache w1)) k = Some d)
                \<and> r2 = r1 \<and> w2 = w1" if ok: "status r1 = 200"
  proof -
    obtain r where res1: "res1 = Inr r" using ok r1 by (cases res1) auto
    then have "r = r1" using r1 by simp
    then obtain d where d: "r1 = \<lparr>body = AnalysisOk d, status = 200\<rparr>"
        "dict_get (analyses (cache w1)) k = Some d"
      using eff1 res1 ok by auto
    from hit [OF d(2)] r2 d show ?thesis by auto
  qed
  show ?thesis using count memo by (simp add: k_def ipos_def)
qed

lemma first_call_ok:
  "status (fst first_call) = 200 \<and> summarizer_calls (snd first_call) = 1
   \<and> render_calls (snd first_call) = 1
   \<and> map fst (analyses (cache (snd first_call))) = [''current_0_Alpha Ltd'']"
  by code_simp

theorem analyze_memoized_witness:
  "status (fst first_call) = 200
   \<and> analyze_ipo (example_env 20000000 broken_driver) ''current'' 0 (snd first_call)
       = first_call
   \<and> summarizer_calls (snd first_call) = 1"
proof -
  let ?e1 = "example_env 10000000 TimesOut"
  let ?e2 = "example_env 20000000 broken_driver"
  let ?w0 = "start_world (example_cache (Some 0))"
  have f1: "\<not> is_stale (now ?e1) (cache ?w0)"
    by (simp add: is_stale_def datetime_sub_def example_env_def start_world_def
          example_cache_def)
  have f2: "\<not> is_stale (now ?e2) (cache ?w0)"
    by (simp add: is_stale_def datetime_sub_def example_env_def start_world_def
          example_cache_def)
  have i: "0 < length (if ''current'' = ''current'' then current_ipos (cache ?w0)
                       else upcoming_ipos (cache ?w0))"
    by (simp add: start_world_def example_cache_def)
  have c1: "analyze_ipo ?e1 ''current'' 0 ?w0 = (fst first_call, snd first_call)"
    by (simp add: first_call_def)
  have c2: "analyze_ipo ?e2 ''current'' 0 (snd first_call) =
              (fst (analyze_ipo ?e2 ''current'' 0 (snd first_call)),
               snd (analyze_ipo ?e2 ''current'' 0 (snd first_call)))"
    by simp
  from analyze_memoized [OF f1 f2 _ i c1 c2] first_call_ok
  have "fst (analyze_ipo ?e2 ''current'' 0 (snd first_call)) = fst first_call
      \<and> snd (analyze_ipo ?e2 ''current'' 0 (snd first_call)) = snd first_call"
    by simp
  then have "analyze_ipo ?e2 ''current'' 0 (snd first_call) = first_call"
    by (simp add: prod_eq_iff)
  then show ?thesis using first_call_ok by simp
qed

text \<open>
  C6, amended. An analyze request whose type is neither "current" nor "upcoming" is
  answered with HTTP 400 and the error message whenever the list read that precedes the
  check returns: always on a fresh cache, and on a stale or empty one when the re-scrape
  returns its two lists.
\<close>

theorem invalid_type_is_400:
  assumes "ty \<noteq> ''current''" and "ty \<noteq> ''upcoming''"
      and "\<not> is_stale (now e) (cache w)
           \<or> (\<exists>cur up. scrape_ipo_dashboard (dashboard e) = Inr (TwoLists cur up))"
  shows \<open>fst (analyze_ipo e ty i w) =
           \<lparr>body = Failure ''Invalid IPO type. Must be "current" or "upcoming"'',
            status = 400\<rparr>\<close>
proof (cases "is_stale (now e) (cache w)")
  case False
  then show ?thesis using assms(1,2) by (simp add: analyze_ipo_def analyze_try_def fresh_read)
next
  case True
  then obtain cur up where "scrape_ipo_dashboard (dashboard e) = Inr (TwoLists cur up)"
    using assms(3) by auto
  then show ?thesis
    using True assms(1,2) by (simp add: analyze_ipo_def analyze_try_def scraped_read)
qed

theorem invalid_type_is_400_witness:
  \<open>fst (analyze_ipo (example_env 10000000 broken_driver) ''bogus'' 0
          (start_world (example_cache (Some 0)))) =
     \<lparr>body = Failure ''Invalid IPO type. Must be "current" or "upcoming"'', status = 400\<rparr>\<close>
proof -
  have "\<not> is_stale (now (example_env 10000000 broken_driver))
            (cache (start_world (example_cache (Some 0))))"
    by (simp add: is_stale_def datetime_sub_def example_env_def start_world_def
          example_cache_def)
  then show ?thesis
    using invalid_type_is_400 [of "''bogus''" "example_env 10000000 broken_driver"
            "start_world (example_cache (Some 0))" 0]
    by simp
qed

text \<open>
  C6 as stated fails: on an empty cache the lists are read first, and when the browser
  cannot be started that read raises, so the request for the type "bogus" is answered
  with HTTP 500.
\<close>

theorem invalid_type_500_when_read_fails:
  "status (fst (analyze_ipo (example_env 0 broken_driver) ''bogus'' 0
                  (start_world (example_cache None)))) = 500"
  by (simp add: analyze_ipo_def analyze_try_def get_cached_ipos_def is_stale_def
        example_env_def start_world_def example_cache_def scrape_ipo_dashboard_def
        broken_driver_def)

subsection \<open>The refresh handler\<close>

text \<open>
  C7, amended. A forced refresh first resets the cache, so that no analysis key is left,
  and then attempts exactly one re-scrape. When that re-scrape returns its two lists, the
  cache holds them with the time of the refresh, is fresh, and the answer is HTTP 200
  with the counts. After a refresh no analyze request is answered from a record stored
  before it: an answer of HTTP 200 renders the page and calls the summarizer again and
  carries a record made by that call.
\<close>

theorem refresh_clears_and_rescrapes:
  assumes "refresh_ipos e w = (r, w')"
  shows "analyses (cache w') = [] \<and> scrape_calls w' = scrape_calls w + 1
       \<and> (scrape_ipo_dashboard (dashboard e) = Inr (TwoLists cur up) \<longrightarrow>
            cache w' = \<lparr>current_ipos = cur, upcoming_ipos = up,
                        last_updated = Some (now e), analyses = []\<rparr>
            \<and> \<not> is_stale (now e) (cache w')
            \<and> r = \<lparr>body = RefreshOk ''IPO data refreshed successfully''
                            (length cur) (length up) (length cur + length up),
                    status = 200\<rparr>)
       \<and> (analyze_ipo e2 ty i w' = (r2, w2) \<and> status r2 = 200 \<longrightarrow>
            summarizer_calls w2 = summarizer_calls w' + 1
            \<and> render_calls w2 = render_calls w' + 1
            \<and> (\<exists>d. body r2 = AnalysisOk d \<and> analyzed_at d = analyzed_now e2
                   \<and> dict_get (analyses (cache w2)) (ipo_key ty i (name (ipo d))) = Some d))"
proof -
  have a: "analyses (cache w') = []" and s: "scrape_calls w' = scrape_calls w + 1"
    using assms
    by (auto simp: refresh_ipos_def get_cached_ipos_def is_stale_def Let_def
             split: sum.splits scrape_ret.splits prod.splits)
  have f: "cache w' = \<lparr>current_ipos = cur, upcoming_ipos = up,
                        last_updated = Some (now e), analyses = []\<rparr>
            \<and> \<not> is_stale (now e) (cache w')
            \<and> r = \<lparr>body = RefreshOk ''IPO data refreshed successfully''
                            (length cur) (length up) (length cur + length up),
                    status = 200\<rparr>"
    if "scrape_ipo_dashboard (dashboard e) = Inr (TwoLists cur up)"
    using assms that
    by (auto simp: refresh_ipos_def get_cached_ipos_def is_stale_def datetime_sub_def Let_def)
  show ?thesis using a s f analyze_after_clear [of e2 ty i w' r2 w2] by blast
qed

lemma analyze_after_refresh_ok:
  "status (fst (analyze_ipo (example_env 40000000 broken_driver) ''current'' 0
                  (snd refreshed))) = 200"
  by code_simp

theorem refresh_clears_and_rescrapes_witness:
  "map fst (analyses (cache (snd first_call))) = [''current_0_Alpha Ltd'']
   \<and> analyses (cache (snd refreshed)) = []
   \<and> last_updated (cache (snd refreshed)) = Some 30000000
   \<and> current_ipos (cache (snd refreshed)) =
       [alpha, \<lparr>name = ''Eps Ltd'', url = ''https://www.chittorgarh.com/ipo/eps/5/''\<rparr>]
   \<and> status (fst refreshed) = 200
   \<and> summarizer_calls (snd (analyze_ipo (example_env 40000000 broken_driver) ''current'' 0
                               (snd refreshed)))
       = summarizer_calls (snd refreshed) + 1"
proof -
  let ?e = "example_env 30000000 (Loaded (dashboard_of example_rows))"
  let ?e2 = "example_env 40000000 broken_driver"
  have r: "refresh_ipos ?e (snd first_call) = (fst refreshed, snd refreshed)"
    by (simp add: refreshed_def)
  have scr: "scrape_ipo_dashboard (dashboard ?e) =
     Inr (TwoLists
            [alpha, \<lparr>name = ''Eps Ltd'', url = ''https://www.chittorgarh.com/ipo/eps/5/''\<rparr>]
            [\<lparr>name = ''Beta Ltd'', url = ''https://www.chittorgarh.com/ipo/beta/2/''\<rparr>])"
    using example_scrape by (simp add: example_env_def)
  have a: "analyze_ipo ?e2 ''current'' 0 (snd refreshed) =
             (fst (analyze_ipo ?e2 ''current'' 0 (snd refreshed)),
              snd (analyze_ipo ?e2 ''current'' 0 (snd refreshed)))"
    by simp
  have n: "now ?e = 30000000" by (simp add: example_env_def)
  from refresh_clears_and_rescrapes [OF r, of _ _ ?e2 "''current''" 0
         "fst (analyze_ipo ?e2 ''current'' 0 (snd refreshed))"
         "snd (analyze_ipo ?e2 ''current'' 0 (snd refreshed))"]
       scr a analyze_after_refresh_ok first_call_ok n
  show ?thesis by simp
qed

text \<open>
  C7 as stated fails: when the browser cannot be started the cache is reset but not
  refilled, so that after the refresh it is still stale, and the answer is HTTP 500.
\<close>

theorem refresh_stays_stale_when_scrape_fails:
  "is_stale 0 (cache (snd (refresh_ipos (example_env 0 broken_driver)
                             (start_world (example_cache (Some 0))))))
   \<and> status (fst (refresh_ipos (example_env 0 broken_driver)
                    (start_world (example_cache (Some 0))))) = 500"
  by (simp add: refresh_ipos_def get_cached_ipos_def is_stale_def example_env_def
        start_world_def example_cache_def scrape_ipo_dashboard_def broken_driver_def)


end
